theory Spec2Isabelle
  imports Main
begin

section \<open>Data model of the playlist manager\<close>

text \<open>
  The hook \<open>usePlaylistManager\<close> keeps three React state cells (\<open>videos\<close>, \<open>playlists\<close>,
  \<open>collections\<close>) and mutates them through functional updaters. The embedding passes the
  three cells around as one record and returns the updated record.

  A JavaScript \<open>Date\<close> is modelled by the number of milliseconds of local wall-clock time
  since the epoch, for a time zone with a fixed offset (no daylight-saving shifts). Under
  that reading \<open>getTime()\<close> differs from the model value by a constant, so comparisons
  and differences of \<open>getTime()\<close> values are comparisons and differences of model values.
  Every \<open>new Date()\<close> of one call is the parameter \<open>now\<close> of the model function, and
  the value returned by \<open>generateUUID()\<close> is the parameter \<open>uuid\<close>.
\<close>

type_synonym date = int

definition msPerDay :: int where
  "msPerDay = 1000 * 60 * 60 * 24"

text \<open>\<open>d.setHours(0, 0, 0, 0)\<close>: the start of the local day of \<open>d\<close>.\<close>

definition setHours0 :: "date \<Rightarrow> date" where
  "setHours0 d = d - d mod msPerDay"

text \<open>\<open>d.setDate(d.getDate() + n)\<close>: the same time of day, \<open>n\<close> days later.\<close>

definition addDays :: "date \<Rightarrow> int \<Rightarrow> date" where
  "addDays d n = d + n * msPerDay"

datatype status = New | Learning | Completed

datatype ptype = TNew | TReview

text \<open>
  \<open>VideoFile\<close> without its two opaque media handles (\<open>file\<close>, \<open>fileUrl\<close>). The counter
  \<open>reviewCount\<close> starts at 0 and is only ever incremented or set to 1, hence a natural
  number.
\<close>

record video =
  vid :: string
  name :: string
  dateAdded :: date
  reviewCount :: nat
  status :: status
  collectionId :: string
  episodeNumber :: nat
  firstPlayDate :: "date option"
  nextReviewDate :: "date option"

record collection =
  cid :: string
  cname :: string
  isActive :: bool
  totalVideos :: nat
  completedVideos :: nat

record playlistItem =
  videoId :: string
  reviewType :: ptype
  reviewNumber :: nat
  daysSinceFirstPlay :: "int option"
  isRecommendedForVideo :: "bool option"

record dailyPlaylist =
  pid :: string
  pdate :: date
  items :: "playlistItem list"
  isCompleted :: bool
  lastPlayedIndex :: int
  isExtraSession :: bool
  playlistType :: ptype

record manager =
  videos :: "video list"
  playlists :: "dailyPlaylist list"
  collections :: "collection list"

definition REVIEW_INTERVALS :: "int list" where
  "REVIEW_INTERVALS = [1, 4, 7, 15, 30, 90]"

definition MAX_NEW_PER_DAY :: nat where
  "MAX_NEW_PER_DAY = 4"

section \<open>Collections\<close>

text \<open>
  \<open>deleteCollection\<close>: the two state updates. The clean-up of the media store before
  them touches neither cell and its failures are caught.
\<close>

definition deleteCollection :: "string \<Rightarrow> manager \<Rightarrow> manager" where
  "deleteCollection c st =
     st\<lparr>videos := filter (\<lambda>v. collectionId v \<noteq> c) (videos st),
        collections := filter (\<lambda>x. cid x \<noteq> c) (collections st)\<rparr>"

section \<open>The review-state transition\<close>

text \<open>The body of the \<open>map\<close> callback of \<open>markVideoAsPlayed\<close> for the matching video.\<close>

definition playVideo :: "date \<Rightarrow> video \<Rightarrow> video" where
  "playVideo now v =
     (if firstPlayDate v = None then
        v\<lparr>firstPlayDate := Some now,
          reviewCount := 1,
          nextReviewDate := Some (setHours0 (addDays now (REVIEW_INTERVALS ! 0))),
          status := Learning\<rparr>
      else
        (let newReviewCount = reviewCount v + 1 in
         if newReviewCount < 5 then
           v\<lparr>reviewCount := newReviewCount,
             nextReviewDate := Some (addDays now (REVIEW_INTERVALS ! (newReviewCount - 1))),
             status := Learning\<rparr>
         else
           v\<lparr>reviewCount := newReviewCount,
             nextReviewDate := None,
             status := Completed\<rparr>))"

text \<open>The branch of the callback that also queues the update of the collection counter.\<close>

definition completesOnPlay :: "video \<Rightarrow> bool" where
  "completesOnPlay v = (firstPlayDate v \<noteq> None \<and> \<not> reviewCount v + 1 < 5)"

definition bumpCompleted :: "string \<Rightarrow> collection list \<Rightarrow> collection list" where
  "bumpCompleted c cs =
     map (\<lambda>x. if cid x = c then x\<lparr>completedVideos := completedVideos x + 1\<rparr> else x) cs"

definition markVideoAsPlayed :: "string \<Rightarrow> date \<Rightarrow> manager \<Rightarrow> manager" where
  "markVideoAsPlayed i now st =
     st\<lparr>videos := map (\<lambda>v. if vid v = i then playVideo now v else v) (videos st),
        collections :=
          foldl (\<lambda>cs v. bumpCompleted (collectionId v) cs) (collections st)
            (filter (\<lambda>v. vid v = i \<and> completesOnPlay v) (videos st))\<rparr>"

section \<open>The scheduler\<close>

definition activeVideos :: "manager \<Rightarrow> video list" where
  "activeVideos st =
     (let activeCollectionIds = map cid (filter isActive (collections st))
      in filter (\<lambda>v. collectionId v \<in> set activeCollectionIds) (videos st))"

definition newItem :: "video \<Rightarrow> playlistItem" where
  "newItem v =
     \<lparr>videoId = vid v, reviewType = TNew, reviewNumber = 1,
      daysSinceFirstPlay = None, isRecommendedForVideo = None\<rparr>"

definition getTodayNewVideos :: "bool \<Rightarrow> manager \<Rightarrow> playlistItem list" where
  "getTodayNewVideos isExtra st =
     map newItem
       (if isExtra then take (MAX_NEW_PER_DAY + 2) (filter (\<lambda>v. status v = New) (activeVideos st))
        else take MAX_NEW_PER_DAY (filter (\<lambda>v. status v = New) (activeVideos st)))"

text \<open>The filter callback of \<open>getTodayReviews\<close>; \<open>today\<close> is already cut to midnight.\<close>

definition isDue :: "date \<Rightarrow> video \<Rightarrow> bool" where
  "isDue today v =
     (case nextReviewDate v of
        None \<Rightarrow> False
      | Some d \<Rightarrow> if status v = Completed then False else setHours0 d \<le> today)"

text \<open>The comparator handed to \<open>sort\<close>.\<close>

definition compareReview :: "video \<Rightarrow> video \<Rightarrow> int" where
  "compareReview a b =
     (case (nextReviewDate a, nextReviewDate b) of
        (Some x, Some y) \<Rightarrow> x - y
      | _ \<Rightarrow> 0)"

text \<open>
  \<open>Array.prototype.sort\<close> is a stable sort by the comparator; it is modelled by the
  stable insertion sort: an element goes in front of the first later element that the
  comparator does not put before it.
\<close>

fun insertBy :: "('a \<Rightarrow> 'a \<Rightarrow> int) \<Rightarrow> 'a \<Rightarrow> 'a list \<Rightarrow> 'a list" where
  "insertBy cmp x [] = [x]"
| "insertBy cmp x (y # ys) = (if cmp x y \<le> 0 then x # y # ys else y # insertBy cmp x ys)"

fun sortBy :: "('a \<Rightarrow> 'a \<Rightarrow> int) \<Rightarrow> 'a list \<Rightarrow> 'a list" where
  "sortBy cmp [] = []"
| "sortBy cmp (x # xs) = insertBy cmp x (sortBy cmp xs)"

text \<open>The local \<open>reviewVideos\<close> of \<open>getTodayReviews\<close> after the sort.\<close>

definition reviewVideos :: "date \<Rightarrow> manager \<Rightarrow> video list" where
  "reviewVideos now st =
     (let today = setHours0 now
      in sortBy compareReview (filter (isDue today) (activeVideos st)))"

definition getDaysSinceFirstPlay :: "date \<Rightarrow> date \<Rightarrow> int" where
  "getDaysSinceFirstPlay now fpd = (now - fpd) div msPerDay"

definition reviewItem :: "date \<Rightarrow> video \<Rightarrow> playlistItem" where
  "reviewItem now v =
     \<lparr>videoId = vid v, reviewType = TReview, reviewNumber = reviewCount v + 1,
      daysSinceFirstPlay =
        Some (case firstPlayDate v of Some f \<Rightarrow> getDaysSinceFirstPlay now f | None \<Rightarrow> 0),
      isRecommendedForVideo = Some (reviewCount v \<in> set [3, 4, 5])\<rparr>"

definition getTodayReviews :: "date \<Rightarrow> manager \<Rightarrow> playlistItem list" where
  "getTodayReviews now st = map (reviewItem now) (reviewVideos now st)"

section \<open>The session manager\<close>

text \<open>The \<open>find\<close> callback shared by \<open>createTodayPlaylist\<close> and \<open>getLastPlaylist\<close>.\<close>

definition openNewOn :: "date \<Rightarrow> dailyPlaylist \<Rightarrow> bool" where
  "openNewOn today p =
     (if playlistType p \<noteq> TNew \<or> isCompleted p then False
      else setHours0 (pdate p) = today)"

text \<open>
  \<open>createTodayPlaylist\<close> reads the cells of the render its closure belongs to
  (\<open>rendered\<close>: the look-up in \<open>playlists\<close>, the selectors over \<open>videos\<close> and
  \<open>collections\<close>) and inserts through the queued updater, which sees the current cells
  (\<open>st\<close>). After a re-render the two are the same; two calls from one handler share
  \<open>rendered\<close> while the second updater sees the cells the first one left.
\<close>

definition createTodayPlaylist ::
  "ptype \<Rightarrow> bool \<Rightarrow> string \<Rightarrow> date \<Rightarrow> manager \<Rightarrow> manager \<Rightarrow> dailyPlaylist \<times> manager" where
  "createTodayPlaylist ty isExtra uuid now rendered st =
     (let today = setHours0 now;
          fresh = (\<lambda>its.
            (let playlist = \<lparr>pid = uuid, pdate = now, items = its, isCompleted = False,
                             lastPlayedIndex = 0, isExtraSession = isExtra,
                             playlistType = ty\<rparr>
             in (playlist, st\<lparr>playlists := playlist # playlists st\<rparr>)))
      in case ty of
           TNew \<Rightarrow>
             (case find (openNewOn today) (playlists rendered) of
                Some exist \<Rightarrow> (exist, st)
              | None \<Rightarrow> fresh (getTodayNewVideos isExtra rendered))
         | TReview \<Rightarrow> fresh (getTodayReviews now rendered))"

definition getLastPlaylist :: "date \<Rightarrow> manager \<Rightarrow> dailyPlaylist option" where
  "getLastPlaylist now st = find (openNewOn (setHours0 now)) (playlists st)"

definition updatePlaylistProgress ::
  "string \<Rightarrow> int \<Rightarrow> bool \<Rightarrow> date \<Rightarrow> manager \<Rightarrow> manager" where
  "updatePlaylistProgress playlistId idx done now st =
     (let st1 = st\<lparr>playlists :=
                  map (\<lambda>p. if pid p = playlistId
                            then p\<lparr>lastPlayedIndex := idx, isCompleted := done\<rparr> else p)
                      (playlists st)\<rparr>
      in if done then
           (case find (\<lambda>p. pid p = playlistId) (playlists st) of
              Some playlist \<Rightarrow>
                foldl (\<lambda>s item. markVideoAsPlayed (videoId item) now s) st1 (items playlist)
            | None \<Rightarrow> st1)
         else st1)"

section \<open>Persisting the playlists\<close>




section \<open>Removing a video\<close>

text \<open>
  \<open>deleteVideo\<close>: the collection counters are adjusted only when the video is found and
  the media store deleted its file without throwing (\<open>fileOk\<close>); the video is dropped
  from the list in every case. \<open>Math.max(0, n - 1)\<close> is the truncating subtraction of
  natural numbers.
\<close>

definition deleteVideo :: "string \<Rightarrow> bool \<Rightarrow> manager \<Rightarrow> manager" where
  "deleteVideo i fileOk st =
     (let cs = (case find (\<lambda>v. vid v = i) (videos st) of
                  Some v \<Rightarrow>
                    if fileOk then
                      map (\<lambda>x. if cid x = collectionId v
                                then x\<lparr>totalVideos := totalVideos x - 1,
                                       completedVideos :=
                                         (if status v = Completed then completedVideos x - 1
                                          else completedVideos x)\<rparr>
                                else x) (collections st)
                    else collections st
                | None \<Rightarrow> collections st)
      in st\<lparr>videos := filter (\<lambda>v. vid v \<noteq> i) (videos st), collections := cs\<rparr>)"

definition removeVideoById :: "string \<Rightarrow> bool \<Rightarrow> manager \<Rightarrow> manager" where
  "removeVideoById i fileOk st =
     (let st1 = deleteVideo i fileOk st
      in st1\<lparr>playlists :=
              map (\<lambda>p. p\<lparr>items := filter (\<lambda>item. videoId item \<noteq> i) (items p)\<rparr>)
                  (playlists st1)\<rparr>)"

section \<open>Sample stores\<close>

definition exVideo ::
  "string \<Rightarrow> string \<Rightarrow> nat \<Rightarrow> status \<Rightarrow> date option \<Rightarrow> date option \<Rightarrow> video" where
  "exVideo i c n s f d =
     \<lparr>vid = i, name = i, dateAdded = 0, reviewCount = n, status = s, collectionId = c,
      episodeNumber = 1, firstPlayDate = f, nextReviewDate = d\<rparr>"

definition exCollection :: "string \<Rightarrow> bool \<Rightarrow> nat \<Rightarrow> nat \<Rightarrow> collection" where
  "exCollection c a t k =
     \<lparr>cid = c, cname = c, isActive = a, totalVideos = t, completedVideos = k\<rparr>"

text \<open>One freshly ingested video in one active collection, no session yet.\<close>

definition exFresh :: manager where
  "exFresh =
     \<lparr>videos = [exVideo ''v1'' ''c1'' 0 New None None], playlists = [],
      collections = [exCollection ''c1'' True 1 0]\<rparr>"

text \<open>The same store with an open new-session created at noon of day 0.\<close>

definition exSession :: manager where
  "exSession =
     \<lparr>videos = [exVideo ''v1'' ''c1'' 0 New None None],
      playlists = [\<lparr>pid = ''p1'', pdate = 43200000,
                     items = [newItem (exVideo ''v1'' ''c1'' 0 New None None)],
                     isCompleted = False, lastPlayedIndex = 0, isExtraSession = False,
                     playlistType = TNew\<rparr>],
      collections = [exCollection ''c1'' True 1 0]\<rparr>"


text \<open>A video that has reached \<open>Completed\<close>.\<close>

definition exDone :: manager where
  "exDone =
     \<lparr>videos = [exVideo ''v1'' ''c1'' 5 Completed (Some 0) None], playlists = [],
      collections = [exCollection ''c1'' True 1 1]\<rparr>"

text \<open>
  Six videos: \<open>a\<close> due on day 5, \<open>b\<close> due on day 2, \<open>c\<close> due on day 11, \<open>d\<close>
  completed, \<open>e\<close> due on day 1 but in an inactive collection, \<open>f\<close> never played.
\<close>

definition exLibrary :: manager where
  "exLibrary =
     \<lparr>videos = [exVideo ''a'' ''c1'' 2 Learning (Some 0) (Some 432000000),
                exVideo ''b'' ''c1'' 1 Learning (Some 100000000) (Some 172800000),
                exVideo ''c'' ''c1'' 1 Learning (Some 0) (Some 950400000),
                exVideo ''d'' ''c1'' 5 Completed (Some 0) None,
                exVideo ''e'' ''c2'' 1 Learning (Some 0) (Some 86400000),
                exVideo ''f'' ''c1'' 0 New None None],
      playlists = [],
      collections = [exCollection ''c1'' True 5 1, exCollection ''c2'' False 1 0]\<rparr>"

section \<open>Facts about the transition\<close>






text \<open>
  C1. The claim puts completion at the 6th playthrough (\<open>reviewCount \<ge> 6\<close>). Played five
  times, a freshly ingested video is already \<open>Completed\<close> with \<open>reviewCount = 5\<close>: the
  transition compares the new count with the literal 5, not with the length of
  \<open>REVIEW_INTERVALS\<close>.
\<close>

theorem completed_on_fifth_play:
  "map status (videos (markVideoAsPlayed ''v1'' 388800000
     (markVideoAsPlayed ''v1'' 302400000 (markVideoAsPlayed ''v1'' 216000000
       (markVideoAsPlayed ''v1'' 129600000 (markVideoAsPlayed ''v1'' 43200000 exFresh))))))
     = [Completed]
   \<and> map reviewCount (videos (markVideoAsPlayed ''v1'' 388800000
     (markVideoAsPlayed ''v1'' 302400000 (markVideoAsPlayed ''v1'' 216000000
       (markVideoAsPlayed ''v1'' 129600000 (markVideoAsPlayed ''v1'' 43200000 exFresh))))))
     = [5]
   \<and> length REVIEW_INTERVALS = 6"
  by (simp add: exFresh_def exVideo_def exCollection_def markVideoAsPlayed_def playVideo_def
        completesOnPlay_def bumpCompleted_def Let_def REVIEW_INTERVALS_def)

text \<open>
  C2. The claim has \<open>nextReviewDate\<close> cut to local midnight after every one of the first
  five playthroughs. The second playthrough, at noon of day 1, stores noon of day 5
  (475200000) where midnight of day 5 is 432000000: only the first-play branch calls
  \<open>setHours(0, 0, 0, 0)\<close>. The fifth playthrough stores no date at all.
\<close>

theorem review_date_keeps_time_of_day:
  "map nextReviewDate (videos (markVideoAsPlayed ''v1'' 43200000 exFresh)) = [Some 86400000]
   \<and> map nextReviewDate
       (videos (markVideoAsPlayed ''v1'' 129600000 (markVideoAsPlayed ''v1'' 43200000 exFresh)))
       = [Some 475200000]
   \<and> setHours0 (addDays 129600000 (REVIEW_INTERVALS ! 1)) = 432000000
   \<and> map nextReviewDate (videos (markVideoAsPlayed ''v1'' 388800000
       (markVideoAsPlayed ''v1'' 302400000 (markVideoAsPlayed ''v1'' 216000000
         (markVideoAsPlayed ''v1'' 129600000 (markVideoAsPlayed ''v1'' 43200000 exFresh))))))
       = [None]"
  by (simp add: exFresh_def exVideo_def exCollection_def markVideoAsPlayed_def playVideo_def
        completesOnPlay_def bumpCompleted_def Let_def REVIEW_INTERVALS_def addDays_def
        setHours0_def msPerDay_def)

section \<open>Completing a session\<close>









section \<open>Obtaining a session\<close>

lemma openNewOn_iff:
  "openNewOn today p = (playlistType p = TNew \<and> \<not> isCompleted p \<and> setHours0 (pdate p) = today)"
  by (simp add: openNewOn_def)

lemma prepend_changes: "st\<lparr>playlists := p # playlists st\<rparr> \<noteq> st"
proof
  assume "st\<lparr>playlists := p # playlists st\<rparr> = st"
  then have "playlists (st\<lparr>playlists := p # playlists st\<rparr>) = playlists st"
    by simp
  then show False by simp
qed

text \<open>
  C4, as the claim states it, fails twice over. Two calls for a review session, a render
  apart, store two playlists with the two generated ids. Two calls for a new-session from
  one render both miss the look-up, which reads the playlists of that render: they return
  the ids \<open>u1\<close> and \<open>u2\<close> and leave two open new-sessions of the same day in the store.
\<close>

theorem createTodayPlaylist_review_twice:
  "pid (fst (createTodayPlaylist TReview False ''u2'' 43200000
               (snd (createTodayPlaylist TReview False ''u1'' 43200000 exFresh exFresh))
               (snd (createTodayPlaylist TReview False ''u1'' 43200000 exFresh exFresh))))
     \<noteq> pid (fst (createTodayPlaylist TReview False ''u1'' 43200000 exFresh exFresh))
   \<and> length (playlists (snd (createTodayPlaylist TReview False ''u2'' 43200000
               (snd (createTodayPlaylist TReview False ''u1'' 43200000 exFresh exFresh))
               (snd (createTodayPlaylist TReview False ''u1'' 43200000 exFresh exFresh))))) = 2
   \<and> pid (fst (createTodayPlaylist TNew False ''u1'' 43200000 exFresh exFresh)) = ''u1''
   \<and> pid (fst (createTodayPlaylist TNew False ''u2'' 43200000 exFresh
               (snd (createTodayPlaylist TNew False ''u1'' 43200000 exFresh exFresh)))) = ''u2''
   \<and> map pid (playlists (snd (createTodayPlaylist TNew False ''u2'' 43200000 exFresh
               (snd (createTodayPlaylist TNew False ''u1'' 43200000 exFresh exFresh)))))
       = [''u2'', ''u1'']
   \<and> map isCompleted (playlists (snd (createTodayPlaylist TNew False ''u2'' 43200000 exFresh
               (snd (createTodayPlaylist TNew False ''u1'' 43200000 exFresh exFresh)))))
       = [False, False]"
  by (simp add: createTodayPlaylist_def Let_def exFresh_def)

text \<open>
  C4, amended. For the type \<open>new\<close>, when a render separates the two calls (the second
  call sees the store the first one left) and both fall on the same local day, the second
  call returns the very playlist the first call returned and stores nothing, whatever the
  two extra flags are. The look-up reads the playlists of the render the call is made
  from, and its key is: type \<open>new\<close>, not completed, created on the local day of \<open>now\<close>;
  the extra flag is not read. The playlist returned for \<open>new\<close> always has that key; the
  store stays as it is exactly when the render shows a playlist with the key, and then
  the first such playlist is returned; otherwise a new playlist with the generated id is
  stored in front of the others and returned. For the type \<open>review\<close> there is no
  look-up: every call stores and returns a new playlist with the generated id.
\<close>

theorem createTodayPlaylist_new_reuses:
  assumes "setHours0 now2 = setHours0 now1"
  shows "createTodayPlaylist TNew e2 u2 now2 (snd (createTodayPlaylist TNew e1 u1 now1 st st))
             (snd (createTodayPlaylist TNew e1 u1 now1 st st))
           = createTodayPlaylist TNew e1 u1 now1 st st
       \<and> playlistType (fst (createTodayPlaylist TNew e u now rd st')) = TNew
       \<and> \<not> isCompleted (fst (createTodayPlaylist TNew e u now rd st'))
       \<and> setHours0 (pdate (fst (createTodayPlaylist TNew e u now rd st'))) = setHours0 now
       \<and> (snd (createTodayPlaylist TNew e u now rd st') = st')
           = (\<exists>p \<in> set (playlists rd).
                playlistType p = TNew \<and> \<not> isCompleted p \<and> setHours0 (pdate p) = setHours0 now)
       \<and> (if \<exists>p \<in> set (playlists rd).
                playlistType p = TNew \<and> \<not> isCompleted p \<and> setHours0 (pdate p) = setHours0 now
          then find (\<lambda>p. playlistType p = TNew \<and> \<not> isCompleted p
                          \<and> setHours0 (pdate p) = setHours0 now) (playlists rd)
                 = Some (fst (createTodayPlaylist TNew e u now rd st'))
          else pid (fst (createTodayPlaylist TNew e u now rd st')) = u
             \<and> playlists (snd (createTodayPlaylist TNew e u now rd st'))
                 = fst (createTodayPlaylist TNew e u now rd st') # playlists st')
       \<and> pid (fst (createTodayPlaylist TReview e u now rd st')) = u
       \<and> playlists (snd (createTodayPlaylist TReview e u now rd st'))
           = fst (createTodayPlaylist TReview e u now rd st') # playlists st'"
proof -
  let ?key = "\<lambda>p. playlistType p = TNew \<and> \<not> isCompleted p \<and> setHours0 (pdate p) = setHours0 now"
  have key: "openNewOn (setHours0 now) = ?key"
    by (rule ext) (simp add: openNewOn_iff)
  have again: "createTodayPlaylist TNew e2 u2 now2 (snd (createTodayPlaylist TNew e1 u1 now1 st st))
             (snd (createTodayPlaylist TNew e1 u1 now1 st st))
           = createTodayPlaylist TNew e1 u1 now1 st st"
  proof (cases "find (openNewOn (setHours0 now1)) (playlists st)")
    case None
    then show ?thesis
      using assms by (simp add: createTodayPlaylist_def Let_def openNewOn_def)
  next
    case (Some exist)
    then show ?thesis
      using assms by (simp add: createTodayPlaylist_def Let_def)
  qed
  have lookup: "playlistType (fst (createTodayPlaylist TNew e u now rd st')) = TNew
       \<and> \<not> isCompleted (fst (createTodayPlaylist TNew e u now rd st'))
       \<and> setHours0 (pdate (fst (createTodayPlaylist TNew e u now rd st'))) = setHours0 now
       \<and> (snd (createTodayPlaylist TNew e u now rd st') = st') = (\<exists>p \<in> set (playlists rd). ?key p)
       \<and> (if \<exists>p \<in> set (playlists rd). ?key p
          then find ?key (playlists rd) = Some (fst (createTodayPlaylist TNew e u now rd st'))
          else pid (fst (createTodayPlaylist TNew e u now rd st')) = u
             \<and> playlists (snd (createTodayPlaylist TNew e u now rd st'))
                 = fst (createTodayPlaylist TNew e u now rd st') # playlists st')"
  proof (cases "find ?key (playlists rd)")
    case None
    then have no: "\<not> (\<exists>p \<in> set (playlists rd). ?key p)"
      by (simp add: find_None_iff)
    show ?thesis
      using None no by (simp add: createTodayPlaylist_def Let_def key prepend_changes)
  next
    case (Some exist)
    then have k: "?key exist" and m: "exist \<in> set (playlists rd)"
      by (auto simp: find_Some_iff)
    then have yes: "\<exists>p \<in> set (playlists rd). ?key p"
      by blast
    show ?thesis
      using Some k yes by (simp add: createTodayPlaylist_def Let_def key)
  qed
  have review: "pid (fst (createTodayPlaylist TReview e u now rd st')) = u
       \<and> playlists (snd (createTodayPlaylist TReview e u now rd st'))
           = fst (createTodayPlaylist TReview e u now rd st') # playlists st'"
    by (simp add: createTodayPlaylist_def Let_def)
  from again lookup review show ?thesis by blast
qed

theorem createTodayPlaylist_new_reuses_witness:
  "setHours0 50000000 = setHours0 43200000
   \<and> createTodayPlaylist TNew True ''u2'' 50000000
        (snd (createTodayPlaylist TNew False ''u1'' 43200000 exFresh exFresh))
        (snd (createTodayPlaylist TNew False ''u1'' 43200000 exFresh exFresh))
       = createTodayPlaylist TNew False ''u1'' 43200000 exFresh exFresh
   \<and> pid (fst (createTodayPlaylist TNew False ''u1'' 43200000 exFresh exFresh)) = ''u1''
   \<and> pid (fst (createTodayPlaylist TNew True ''u3'' 50000000 exSession exSession)) = ''p1''
   \<and> snd (createTodayPlaylist TNew True ''u3'' 50000000 exSession exSession) = exSession
   \<and> map isCompleted (playlists (updatePlaylistProgress ''p1'' 1 True 43200000 exSession))
       = [True]
   \<and> pid (fst (createTodayPlaylist TNew False ''u3'' 50000000
                  (updatePlaylistProgress ''p1'' 1 True 43200000 exSession)
                  (updatePlaylistProgress ''p1'' 1 True 43200000 exSession))) = ''u3''
   \<and> map pid (playlists (snd (createTodayPlaylist TNew False ''u3'' 50000000
                  (updatePlaylistProgress ''p1'' 1 True 43200000 exSession)
                  (updatePlaylistProgress ''p1'' 1 True 43200000 exSession))))
       = [''u3'', ''p1'']"
proof -
  have h: "setHours0 50000000 = setHours0 43200000"
    by (simp add: setHours0_def msPerDay_def)
  show ?thesis
    using h createTodayPlaylist_new_reuses [OF h, of True "''u2''" False "''u1''" exFresh
        True "''u3''" 50000000 exSession exSession]
      createTodayPlaylist_new_reuses [OF h, of True "''u2''" False "''u1''" exFresh
        False "''u3''" 50000000 "updatePlaylistProgress ''p1'' 1 True 43200000 exSession"
        "updatePlaylistProgress ''p1'' 1 True 43200000 exSession"]
    by (simp add: createTodayPlaylist_def updatePlaylistProgress_def markVideoAsPlayed_def
          playVideo_def completesOnPlay_def bumpCompleted_def getTodayNewVideos_def
          activeVideos_def Let_def exFresh_def exSession_def exVideo_def exCollection_def
          newItem_def openNewOn_def setHours0_def msPerDay_def)
qed

section \<open>Advancing the cursor\<close>





section \<open>Unknown session ids\<close>

text \<open>
  C9, as the claim states it, fails: for the id \<open>nope\<close>, which no playlist of the store
  has, both a completion and an advance return the store unchanged; the function has no
  other outcome than the updated store.
\<close>

theorem unknown_session_no_signal:
  "updatePlaylistProgress ''nope'' 1 True 43200000 exSession = exSession
   \<and> updatePlaylistProgress ''nope'' 1 False 43200000 exSession = exSession"
  by (simp add: updatePlaylistProgress_def exSession_def)

text \<open>
  C9, amended. For a session id that no stored playlist has, \<open>updatePlaylistProgress\<close>,
  with or without completion, returns the store unchanged and signals nothing.
\<close>

theorem unknown_session_silent:
  "s \<notin> pid ` set (playlists st) \<Longrightarrow> updatePlaylistProgress s idx done now st = st"
proof -
  assume h: "s \<notin> pid ` set (playlists st)"
  have m: "map (\<lambda>p. if pid p = s then p\<lparr>lastPlayedIndex := idx, isCompleted := done\<rparr> else p)
            (playlists st) = playlists st"
    using h by (intro map_idI) auto
  have f: "find (\<lambda>p. pid p = s) (playlists st) = None"
    using h by (auto simp: find_None_iff)
  show ?thesis by (simp add: updatePlaylistProgress_def m f)
qed

theorem unknown_session_silent_witness:
  "''nope'' \<notin> pid ` set (playlists exSession)
   \<and> updatePlaylistProgress ''nope'' 1 True 43200000 exSession = exSession"
proof -
  have h: "''nope'' \<notin> pid ` set (playlists exSession)"
    by (simp add: exSession_def)
  show ?thesis using h unknown_session_silent [OF h, of 1 True 43200000] by simp
qed

section \<open>Sessions emptied by removals\<close>

text \<open>
  C8. The claim has an open new-session purged once none of its items resolves any more.
  After \<open>removeVideoById\<close> has removed the only video of the session \<open>p1\<close>, the playlist
  is still stored, with no items; \<open>getLastPlaylist\<close> on the same day returns it, and so
  does \<open>createTodayPlaylist\<close> for a new-session, called from the render after the removal.
\<close>

theorem emptied_session_resurfaces:
  "videos (removeVideoById ''v1'' True exSession) = []
   \<and> length (playlists (removeVideoById ''v1'' True exSession)) = 1
   \<and> map_option pid (getLastPlaylist 50000000 (removeVideoById ''v1'' True exSession))
       = Some ''p1''
   \<and> map_option items (getLastPlaylist 50000000 (removeVideoById ''v1'' True exSession))
       = Some []
   \<and> pid (fst (createTodayPlaylist TNew False ''u2'' 50000000
                   (removeVideoById ''v1'' True exSession)
                   (removeVideoById ''v1'' True exSession))) = ''p1''
   \<and> items (fst (createTodayPlaylist TNew False ''u2'' 50000000
                     (removeVideoById ''v1'' True exSession)
                     (removeVideoById ''v1'' True exSession))) = []"
  by (simp add: removeVideoById_def deleteVideo_def getLastPlaylist_def openNewOn_def Let_def
        createTodayPlaylist_def exSession_def exVideo_def exCollection_def newItem_def
        setHours0_def msPerDay_def)

section \<open>Due reviews\<close>

lemma set_insertBy: "set (insertBy cmp x ys) = insert x (set ys)"
  by (induction ys) auto

lemma set_sortBy: "set (sortBy cmp xs) = set xs"
  by (induction xs) (simp_all add: set_insertBy)

lemma compareReview_le:
  "nextReviewDate a = Some x \<Longrightarrow> nextReviewDate b = Some y \<Longrightarrow>
     (compareReview a b \<le> 0) = (x \<le> y)"
  by (simp add: compareReview_def)

text \<open>On videos that all carry a date the comparator sort is the sort by that date.\<close>

lemma insertBy_insort_key:
  "nextReviewDate x \<noteq> None \<Longrightarrow> \<forall>y \<in> set ys. nextReviewDate y \<noteq> None \<Longrightarrow>
     insertBy compareReview x ys = insort_key (\<lambda>v. the (nextReviewDate v)) x ys"
  by (induction ys) (auto simp: compareReview_le)

lemma sortBy_sort_key:
  "\<forall>y \<in> set xs. nextReviewDate y \<noteq> None \<Longrightarrow>
     sortBy compareReview xs = sort_key (\<lambda>v. the (nextReviewDate v)) xs"
proof (induction xs)
  case Nil
  then show ?case by simp
next
  case (Cons x xs)
  then have "sortBy compareReview xs = sort_key (\<lambda>v. the (nextReviewDate v)) xs"
    by simp
  moreover have "\<forall>y \<in> set (sort_key (\<lambda>v. the (nextReviewDate v)) xs). nextReviewDate y \<noteq> None"
    using Cons.prems by simp
  ultimately show ?case
    using Cons.prems by (simp add: insertBy_insort_key sort_key_simps)
qed

lemma isDue_iff:
  "isDue today v =
     ((\<exists>d. nextReviewDate v = Some d \<and> setHours0 d \<le> today) \<and> status v \<noteq> Completed)"
  by (auto simp: isDue_def split: option.splits)

lemma set_activeVideos:
  "set (activeVideos st) =
     {v \<in> set (videos st). \<exists>c \<in> set (collections st). cid c = collectionId v \<and> isActive c}"
  by (auto simp: activeVideos_def Let_def image_iff)

text \<open>
  C6. The videos behind the items of \<open>getTodayReviews\<close> are exactly the stored videos
  that have a \<open>nextReviewDate\<close> whose midnight is not after the midnight of \<open>now\<close>, are
  not \<open>Completed\<close>, and belong to a collection that is active; they come in ascending
  order of \<open>nextReviewDate\<close>, and the items list their ids in that order.
\<close>

theorem getTodayReviews_due_sorted:
  "set (reviewVideos now st) =
     {v \<in> set (videos st).
        (\<exists>d. nextReviewDate v = Some d \<and> setHours0 d \<le> setHours0 now)
        \<and> status v \<noteq> Completed
        \<and> (\<exists>c \<in> set (collections st). cid c = collectionId v \<and> isActive c)}
   \<and> (\<exists>ds. map nextReviewDate (reviewVideos now st) = map Some ds \<and> sorted ds)
   \<and> map videoId (getTodayReviews now st) = map vid (reviewVideos now st)"
proof -
  let ?due = "filter (isDue (setHours0 now)) (activeVideos st)"
  let ?key = "\<lambda>v. the (nextReviewDate v)"
  have some: "\<forall>y \<in> set ?due. nextReviewDate y \<noteq> None"
    by (auto simp: isDue_iff)
  have rv: "reviewVideos now st = sort_key ?key ?due"
    by (simp add: reviewVideos_def Let_def sortBy_sort_key [OF some])
  have members: "set (reviewVideos now st) =
     {v \<in> set (videos st).
        (\<exists>d. nextReviewDate v = Some d \<and> setHours0 d \<le> setHours0 now)
        \<and> status v \<noteq> Completed
        \<and> (\<exists>c \<in> set (collections st). cid c = collectionId v \<and> isActive c)}"
    unfolding rv by (auto simp: isDue_iff set_activeVideos)
  have ascending: "sorted (map ?key (reviewVideos now st))"
    unfolding rv by (rule sorted_sort_key)
  have "\<forall>y \<in> set (reviewVideos now st). nextReviewDate y \<noteq> None"
    unfolding rv using some by simp
  then have "map nextReviewDate (reviewVideos now st)
               = map Some (map ?key (reviewVideos now st))"
    by (auto simp: comp_def)
  with ascending
  have dates: "\<exists>ds. map nextReviewDate (reviewVideos now st) = map Some ds \<and> sorted ds"
    by blast
  have ids: "map videoId (getTodayReviews now st) = map vid (reviewVideos now st)"
    by (simp add: getTodayReviews_def reviewItem_def comp_def)
  from members dates ids show ?thesis by blast
qed

theorem getTodayReviews_due_sorted_witness:
  "map vid (reviewVideos 475200000 exLibrary) = [''b'', ''a'']
   \<and> map nextReviewDate (reviewVideos 475200000 exLibrary) = map Some [172800000, 432000000]
   \<and> sorted [172800000, 432000000 :: int]
   \<and> map videoId (getTodayReviews 475200000 exLibrary) = [''b'', ''a'']"
  using getTodayReviews_due_sorted [of 475200000 exLibrary]
  by (simp add: reviewVideos_def activeVideos_def isDue_def compareReview_def Let_def
        exLibrary_def exVideo_def exCollection_def setHours0_def msPerDay_def)

section \<open>Playing a completed video\<close>

text \<open>
  C7. The claim has \<open>Completed\<close> terminal: no further playthrough changes the video.
  \<open>markVideoAsPlayed\<close> does not look at the status. Played once more, the completed
  video of a collection with one video has \<open>reviewCount = 6\<close> instead of 5, and the
  collection counts two completed videos.
\<close>

theorem completed_not_terminal:
  "map status (videos exDone) = [Completed] \<and> map reviewCount (videos exDone) = [5]
   \<and> map nextReviewDate (videos exDone) = [None]
   \<and> map totalVideos (collections exDone) = [1]
   \<and> map completedVideos (collections exDone) = [1]
   \<and> map status (videos (markVideoAsPlayed ''v1'' 43200000 exDone)) = [Completed]
   \<and> map reviewCount (videos (markVideoAsPlayed ''v1'' 43200000 exDone)) = [6]
   \<and> map completedVideos (collections (markVideoAsPlayed ''v1'' 43200000 exDone)) = [2]"
  by (simp add: exDone_def exVideo_def exCollection_def markVideoAsPlayed_def playVideo_def
        completesOnPlay_def bumpCompleted_def Let_def)

section \<open>Deleting a collection\<close>

text \<open>
  C10. After \<open>deleteCollection c\<close> the video list is the old one restricted to the videos
  of other collections, in the old order and each unchanged; no video of \<open>c\<close> is left;
  no collection with id \<open>c\<close> is left; every other collection and all playlists are kept.
\<close>

theorem deleteCollection_exact:
  "videos (deleteCollection c st) = filter (\<lambda>v. collectionId v \<noteq> c) (videos st)
   \<and> set (videos (deleteCollection c st)) = {v \<in> set (videos st). collectionId v \<noteq> c}
   \<and> c \<notin> cid ` set (collections (deleteCollection c st))
   \<and> set (collections (deleteCollection c st)) = {x \<in> set (collections st). cid x \<noteq> c}
   \<and> playlists (deleteCollection c st) = playlists st"
  by (auto simp: deleteCollection_def)

end
